theory Spec2Isabelle
  imports Complex_Main
begin

section \<open>JavaScript values\<close>

text \<open>
  The wallet of \<^verbatim>\<open>src/wallet/wallet.js\<close> is dynamically typed: its constructor and
  its methods test their arguments with \<^verbatim>\<open>isNil\<close>, \<^verbatim>\<open>isString\<close>, \<^verbatim>\<open>isNumber\<close>,
  \<^verbatim>\<open>instanceof Keypair\<close> and plain truthiness. The arguments are therefore values of a
  datatype of JavaScript values. Numbers are the finite ones, taken as exact rationals;
  binary blobs (Node buffers, sjcl bit arrays) are byte strings.
\<close>

type_synonym bytes = string

text \<open>
  Modelled from the spec: the class \<^verbatim>\<open>Keypair\<close> of \<^verbatim>\<open>src/base/keypair.js\<close> is not
  among the sources. A keypair holds a private signing key, read by \<^verbatim>\<open>secret()\<close>, and a
  public verification key, read by \<^verbatim>\<open>accountId()\<close>.
\<close>

datatype keypair = Keypair (kp_secret: string) (kp_accountId: string)

datatype jsval =
    JUndefined
  | JNull
  | JBool bool
  | JNum rat
  | JStr string
  | JKeypair keypair
  | JObj "(string \<times> jsval) list"

datatype exn = Error string | TypeError string

fun isNil :: "jsval \<Rightarrow> bool" where
  "isNil JUndefined = True"
| "isNil JNull = True"
| "isNil _ = False"

fun isString :: "jsval \<Rightarrow> bool" where
  "isString (JStr _) = True"
| "isString _ = False"

fun isNumber :: "jsval \<Rightarrow> bool" where
  "isNumber (JNum _) = True"
| "isNumber _ = False"

text \<open>What \<^verbatim>\<open>if (v)\<close> and \<^verbatim>\<open>!v\<close> test.\<close>

fun truthy :: "jsval \<Rightarrow> bool" where
  "truthy JUndefined = False"
| "truthy JNull = False"
| "truthy (JBool b) = b"
| "truthy (JNum q) = (q \<noteq> 0)"
| "truthy (JStr s) = (s \<noteq> [])"
| "truthy (JKeypair _) = True"
| "truthy (JObj _) = True"

text \<open>
  Reading a property \<^verbatim>\<open>v.name\<close>: a \<^verbatim>\<open>TypeError\<close> on \<^verbatim>\<open>undefined\<close> and \<^verbatim>\<open>null\<close>,
  the first entry of that name on an object, \<^verbatim>\<open>undefined\<close> where there is none.
\<close>

fun js_get :: "jsval \<Rightarrow> string \<Rightarrow> exn + jsval" where
  "js_get JUndefined name = Inl (TypeError ''Cannot read properties of undefined'')"
| "js_get JNull name = Inl (TypeError ''Cannot read properties of null'')"
| "js_get (JObj kvs) name =
     (case map_of kvs name of None \<Rightarrow> Inr JUndefined | Some v \<Rightarrow> Inr v)"
| "js_get _ name = Inr JUndefined"

section \<open>The primitives the wallet is built on\<close>

text \<open>
  \<^verbatim>\<open>wallet.js\<close> imports its cryptography from \<^verbatim>\<open>./crypto\<close>, \<^verbatim>\<open>../base\<close> and
  \<^verbatim>\<open>sjcl\<close>, and uses the built-ins \<^verbatim>\<open>JSON\<close> and \<^verbatim>\<open>String\<close>. None of them is among
  the sources, so the wallet's operations take them as a parameter: a record of the
  functions they call. A primitive that can throw returns a sum. The cipher draws a
  fresh initialisation vector on each call, which is its first argument here.
\<close>

record provider =
  calculateMasterKey :: "jsval \<Rightarrow> jsval \<Rightarrow> jsval \<Rightarrow> jsval \<Rightarrow> exn + bytes"
  deriveWalletId :: "bytes \<Rightarrow> bytes"
  deriveWalletKey :: "bytes \<Rightarrow> bytes"
  encryptData :: "bytes \<Rightarrow> string \<Rightarrow> bytes \<Rightarrow> string"
  decryptData :: "string \<Rightarrow> bytes \<Rightarrow> exn + string"
  hexFromBits :: "bytes \<Rightarrow> string"
  toBase64 :: "bytes \<Rightarrow> string"
  jsonStringify :: "jsval \<Rightarrow> string"
  jsonParse :: "string \<Rightarrow> exn + jsval"
  isValidSecretKey :: "string \<Rightarrow> bool"
  isValidPublicKey :: "string \<Rightarrow> bool"
  fromSecret :: "string \<Rightarrow> exn + keypair"
  hash :: "string \<Rightarrow> bytes"
  signDecorated :: "keypair \<Rightarrow> bytes \<Rightarrow> bytes"
  toXDR_base64 :: "bytes \<Rightarrow> string"
  stringOf :: "jsval \<Rightarrow> string"

text \<open>
  Modelled from the spec: the validators and the seed parser of \<^verbatim>\<open>Keypair\<close> are
  functions of strings (``a syntactically valid account-id string'', ``a secret-seed
  string''); a value that is not a string is not valid, and parsing it throws.
\<close>

definition Keypair_isValidPublicKey :: "provider \<Rightarrow> jsval \<Rightarrow> bool" where
  "Keypair_isValidPublicKey P v = (case v of JStr s \<Rightarrow> isValidPublicKey P s | _ \<Rightarrow> False)"

definition Keypair_fromSecret :: "provider \<Rightarrow> jsval \<Rightarrow> exn + keypair" where
  "Keypair_fromSecret P v =
     (case v of JStr s \<Rightarrow> fromSecret P s
      | _ \<Rightarrow> Inl (TypeError ''encoded argument must be of type String''))"

text \<open>The string a template literal puts in for \<^verbatim>\<open>${v}\<close>: a string is itself.\<close>

definition js_String :: "provider \<Rightarrow> jsval \<Rightarrow> string" where
  "js_String P v = (case v of JStr s \<Rightarrow> s | _ \<Rightarrow> stringOf P v)"

section \<open>Numbers as text\<close>

text \<open>
  \<^verbatim>\<open>Math.floor(x).toString()\<close> writes an integer in decimal, with a minus sign when it
  is negative. (JavaScript does so up to a magnitude of \<open>10\<^sup>2\<^sup>1\<close>, which no timestamp in
  seconds comes near; the numbers here are exact, so the notation is kept throughout.)
\<close>

definition digit_char :: "nat \<Rightarrow> char" where
  "digit_char d = ''0123456789'' ! d"

fun nat_toString :: "nat \<Rightarrow> string" where
  "nat_toString n =
     (if n < 10 then [digit_char n] else nat_toString (n div 10) @ [digit_char (n mod 10)])"

declare nat_toString.simps [simp del]

definition int_toString :: "int \<Rightarrow> string" where
  "int_toString i =
     (if i < 0 then CHR ''-'' # nat_toString (nat (- i)) else nat_toString (nat i))"



section \<open>The wallet\<close>

definition SIGNATURE_VALID_SEC :: rat where
  "SIGNATURE_VALID_SEC = 60"

text \<open>
  The fields \<^verbatim>\<open>_email\<close>, \<^verbatim>\<open>_keypair\<close>, \<^verbatim>\<open>_accountId\<close>, \<^verbatim>\<open>_id\<close> and
  \<^verbatim>\<open>_clockDiff\<close>, each stored as the constructor was given it.
\<close>

record wallet =
  w_email :: jsval
  w_keypair :: keypair
  w_accountId :: jsval
  w_id :: jsval
  w_clockDiff :: rat

text \<open>The constructor: an exception leaves no wallet behind.\<close>

definition Wallet_constructor ::
  "provider \<Rightarrow> jsval \<Rightarrow> jsval \<Rightarrow> jsval \<Rightarrow> jsval \<Rightarrow> exn + wallet" where
  "Wallet_constructor P email keypair accountId walletId =
     (if isNil email then Inl (Error ''Email is required.'')
      else
        case (if isNil keypair then Inl (Error ''No keypair provided.'')
              else case keypair of
                JStr s \<Rightarrow>
                  if \<not> isValidSecretKey P s then Inl (Error ''Invalid secret seed.'')
                  else fromSecret P s
              | JKeypair kp \<Rightarrow> Inr kp
              | _ \<Rightarrow> Inl (Error
                  ''Invalid keypair. Expected a Keypair instance or a string seed.''))
        of Inl e \<Rightarrow> Inl e
         | Inr kp \<Rightarrow>
            if \<not> Keypair_isValidPublicKey P accountId then Inl (Error ''Invalid account ID.'')
            else if truthy walletId \<and> \<not> isString walletId
              then Inl (Error ''Hex encoded wallet ID expected.'')
            else Inr \<lparr>w_email = email, w_keypair = kp, w_accountId = accountId,
                      w_id = walletId, w_clockDiff = 0\<rparr>)"

text \<open>\<^verbatim>\<open>generate\<close>: the argument \<open>kp\<close> is the keypair \<^verbatim>\<open>Keypair.random()\<close> drew.\<close>

definition generate :: "provider \<Rightarrow> keypair \<Rightarrow> jsval \<Rightarrow> exn + wallet" where
  "generate P kp email =
     Wallet_constructor P email (JKeypair kp) (JStr (kp_accountId kp)) JUndefined"

definition fromEncrypted ::
  "provider \<Rightarrow> string \<Rightarrow> jsval \<Rightarrow> jsval \<Rightarrow> jsval \<Rightarrow> jsval \<Rightarrow> exn + wallet" where
  "fromEncrypted P keychainData kdfParams salt email password =
     (case calculateMasterKey P salt email password kdfParams of
        Inl e \<Rightarrow> Inl e
      | Inr rawMasterKey \<Rightarrow>
         (let rawWalletId = deriveWalletId P rawMasterKey;
              rawWalletKey = deriveWalletKey P rawMasterKey
          in case decryptData P keychainData rawWalletKey of
               Inl e \<Rightarrow> Inl e
             | Inr plain \<Rightarrow>
                (case jsonParse P plain of
                   Inl e \<Rightarrow> Inl e
                 | Inr decryptedKeychain \<Rightarrow>
                    (case js_get decryptedKeychain ''seed'' of
                       Inl e \<Rightarrow> Inl e
                     | Inr seed \<Rightarrow>
                        (case Keypair_fromSecret P seed of
                           Inl e \<Rightarrow> Inl e
                         | Inr kp \<Rightarrow>
                            (case js_get decryptedKeychain ''accountId'' of
                               Inl e \<Rightarrow> Inl e
                             | Inr acc \<Rightarrow>
                                 Wallet_constructor P email (JKeypair kp) acc
                                   (JStr (hexFromBits P rawWalletId))))))))"

definition deriveId :: "provider \<Rightarrow> jsval \<Rightarrow> jsval \<Rightarrow> jsval \<Rightarrow> jsval \<Rightarrow> exn + string" where
  "deriveId P email password kdfParams salt =
     (case calculateMasterKey P salt email password kdfParams of
        Inl e \<Rightarrow> Inl e
      | Inr masterKey \<Rightarrow>
         (let walletId = deriveWalletId P masterKey in Inr (hexFromBits P walletId)))"

definition fromRecoverySeed ::
  "provider \<Rightarrow> jsval \<Rightarrow> jsval \<Rightarrow> jsval \<Rightarrow> jsval \<Rightarrow> exn + wallet" where
  "fromRecoverySeed P kdfParams salt email recoverySeed =
     (case Keypair_fromSecret P recoverySeed of
        Inl e \<Rightarrow> Inl e
      | Inr recoveryKeypair \<Rightarrow>
         (case deriveId P email recoverySeed kdfParams salt of
            Inl e \<Rightarrow> Inl e
          | Inr walletId \<Rightarrow>
              Wallet_constructor P email (JKeypair recoveryKeypair)
                (JStr (kp_accountId recoveryKeypair)) (JStr walletId)))"

text \<open>The getters.\<close>

definition get_id :: "wallet \<Rightarrow> exn + jsval" where
  "get_id w =
     (if \<not> truthy (w_id w) then Inl (Error ''This wallet has no wallet ID yet.'')
      else Inr (w_id w))"

definition secretSeed :: "wallet \<Rightarrow> string" where
  "secretSeed w = kp_secret (w_keypair w)"

text \<open>
  A method runs on a wallet and leaves a wallet: it returns the wallet after the call
  together with what it returned or threw. The clock is an argument: \<open>nowMs\<close> is what
  \<^verbatim>\<open>new Date().getTime()\<close> and \<^verbatim>\<open>Date.now()\<close> read, in milliseconds.
\<close>

definition getTimestamp :: "wallet \<Rightarrow> int \<Rightarrow> rat" where
  "getTimestamp w nowMs = of_int \<lfloor>(of_int nowMs :: rat) / 1000\<rfloor> - w_clockDiff w"

definition signatureBase :: "string \<Rightarrow> string \<Rightarrow> string" where
  "signatureBase uri validUntil =
     ''{ uri: '' @ [CHR 0x27] @ uri @ [CHR 0x27] @ '', valid_untill: '' @ [CHR 0x27]
       @ validUntil @ [CHR 0x27] @ ''}''"

record headers =
  X_AuthValidUnTillTimestamp :: string
  X_AuthPublicKey :: string
  X_AuthSignature :: string

text \<open>What \<^verbatim>\<open>signRequest\<close> returns, and the line it writes with \<^verbatim>\<open>console.log\<close>.\<close>

record request_config =
  logged :: string
  request_headers :: headers

definition signRequest ::
  "provider \<Rightarrow> wallet \<Rightarrow> int \<Rightarrow> jsval \<Rightarrow> wallet \<times> (exn + request_config)" where
  "signRequest P w nowMs uri =
     (if \<not> truthy uri then (w, Inl (Error ''URI required.''))
      else
        let validUntil = int_toString \<lfloor>getTimestamp w nowMs + SIGNATURE_VALID_SEC\<rfloor>;
            base = signatureBase (js_String P uri) validUntil;
            data = hash P base;
            signature = signDecorated P (w_keypair w) data
        in (w, Inr \<lparr>logged = base,
                    request_headers =
                      \<lparr>X_AuthValidUnTillTimestamp = validUntil,
                       X_AuthPublicKey = kp_accountId (w_keypair w),
                       X_AuthSignature = toXDR_base64 P signature\<rparr>\<rparr>))"

record artifact =
  art_id :: jsval
  art_accountId :: jsval
  art_email :: jsval
  art_salt :: string
  art_keychainData :: string

text \<open>
  \<^verbatim>\<open>encrypt\<close>: \<open>rnd\<close> is what \<^verbatim>\<open>crypto.randomBytes(16)\<close> drew and \<open>iv\<close> the
  initialisation vector the cipher drew.
\<close>

definition encrypt ::
  "provider \<Rightarrow> wallet \<Rightarrow> bytes \<Rightarrow> bytes \<Rightarrow> jsval \<Rightarrow> jsval \<Rightarrow> wallet \<times> (exn + artifact)" where
  "encrypt P w rnd iv kdfParams password =
     (if isNil kdfParams then (w, Inl (Error ''KDF params required''))
      else if \<not> isString password \<or> password = JStr []
        then (w, Inl (TypeError ''Password must be a non-empty string''))
      else
        let salt = toBase64 P rnd
        in case calculateMasterKey P (JStr salt) (w_email w) password kdfParams of
             Inl e \<Rightarrow> (w, Inl e)
           | Inr masterKey \<Rightarrow>
              (let walletKey = deriveWalletKey P masterKey;
                   rawKeychainData =
                     JObj [(''accountId'', w_accountId w),
                           (''seed'', JStr (kp_secret (w_keypair w)))];
                   keychainData = encryptData P iv (jsonStringify P rawKeychainData) walletKey;
                   rawWalletId = deriveWalletId P masterKey;
                   w' = w\<lparr>w_id := JStr (hexFromBits P rawWalletId)\<rparr>
               in (w', Inr \<lparr>art_id = w_id w', art_accountId = w_accountId w',
                            art_email = w_email w', art_salt = salt,
                            art_keychainData = keychainData\<rparr>)))"

text \<open>
  \<^verbatim>\<open>encryptRecoveryData\<close> builds a second wallet and encrypts that one; the wallet it
  is called on stays as it is.
\<close>

definition encryptRecoveryData ::
  "provider \<Rightarrow> wallet \<Rightarrow> bytes \<Rightarrow> bytes \<Rightarrow> jsval \<Rightarrow> keypair \<Rightarrow> wallet \<times> (exn + artifact)" where
  "encryptRecoveryData P w rnd iv kdfParams recoveryKeypair =
     (case Wallet_constructor P (w_email w) (JKeypair (w_keypair w))
             (JStr (kp_accountId recoveryKeypair)) JUndefined of
        Inl e \<Rightarrow> (w, Inl e)
      | Inr recoveryWallet \<Rightarrow>
          (w, snd (encrypt P recoveryWallet rnd iv kdfParams (JStr (kp_secret recoveryKeypair)))))"

text \<open>The number a value is; the guard of \<^verbatim>\<open>synchronizeTime\<close> lets only numbers through.\<close>

fun numberOf :: "jsval \<Rightarrow> rat" where
  "numberOf (JNum q) = q"
| "numberOf _ = 0"

definition synchronizeTime :: "wallet \<Rightarrow> int \<Rightarrow> jsval \<Rightarrow> wallet \<times> (exn + unit)" where
  "synchronizeTime w nowMs timestamp =
     (if isNil timestamp \<or> \<not> isNumber timestamp
        then (w, Inl (TypeError ''Invalid timestamp. A UNIX timestamp in seconds expected.''))
      else
        let now = (of_int nowMs :: rat) / 1000
        in (w\<lparr>w_clockDiff := now - numberOf timestamp\<rparr>, Inr ()))"

section \<open>The expiry timestamp as the spec words it\<close>




section \<open>What the wallet needs of its primitives\<close>

text \<open>
  Modelled from the spec: the cipher and the keychain's serialisation are not among the
  sources; the spec requires of them that \<^verbatim>\<open>decrypt(encrypt(payload, key), key) == payload\<close>
  for every key and every \<^verbatim>\<open>{accountId, seed}\<close> payload, whatever vector the cipher drew,
  and that the keychain is parsed back as it was serialised.
\<close>

definition cipher_roundtrip :: "provider \<Rightarrow> bool" where
  "cipher_roundtrip P =
     (\<forall>iv plain key. decryptData P (encryptData P iv plain key) key = Inr plain)"

definition keychain :: "string \<Rightarrow> string \<Rightarrow> jsval" where
  "keychain a s = JObj [(''accountId'', JStr a), (''seed'', JStr s)]"

definition json_roundtrip :: "provider \<Rightarrow> bool" where
  "json_roundtrip P =
     (\<forall>a s. jsonParse P (jsonStringify P (keychain a s)) = Inr (keychain a s))"

text \<open>
  Modelled from the spec: a \<^verbatim>\<open>Keypair\<close> instance is made by \<^verbatim>\<open>Keypair\<close>'s own
  constructors, so parsing the seed it prints gives the same keypair again.
\<close>

definition keypair_genuine :: "provider \<Rightarrow> keypair \<Rightarrow> bool" where
  "keypair_genuine P kp = (fromSecret P (kp_secret kp) = Inr kp)"

text \<open>What the constructor has checked of a wallet, and that its keypair is genuine.\<close>

definition wallet_inv :: "provider \<Rightarrow> wallet \<Rightarrow> bool" where
  "wallet_inv P w =
     (\<not> isNil (w_email w) \<and> Keypair_isValidPublicKey P (w_accountId w)
      \<and> (truthy (w_id w) \<longrightarrow> isString (w_id w)) \<and> keypair_genuine P (w_keypair w))"

text \<open>
  The arguments the constructor accepts, as its checks read: an email that is neither
  \<^verbatim>\<open>null\<close> nor \<^verbatim>\<open>undefined\<close>; a \<^verbatim>\<open>Keypair\<close> instance or a string that is a valid
  secret seed and parses; a valid account id; a wallet id that is falsy or a string.
\<close>

definition constructor_accepts :: "provider \<Rightarrow> jsval \<Rightarrow> jsval \<Rightarrow> jsval \<Rightarrow> jsval \<Rightarrow> bool" where
  "constructor_accepts P email keypair accountId walletId =
     (\<not> isNil email
      \<and> (case keypair of
            JKeypair kp \<Rightarrow> True
          | JStr s \<Rightarrow> isValidSecretKey P s \<and> (case fromSecret P s of Inl e \<Rightarrow> False | Inr kp \<Rightarrow> True)
          | _ \<Rightarrow> False)
      \<and> Keypair_isValidPublicKey P accountId
      \<and> (truthy walletId \<longrightarrow> isString walletId))"

section \<open>A small provider\<close>

text \<open>
  A provider simple enough to run by hand, which meets the requirements above: the
  master key is the salt and the password side by side, the cipher writes the key in
  front of the plaintext and checks it on the way back, the keychain is serialised with
  the length of the account id in front, a seed starts with \<open>S\<close> and its account id
  is the seed with \<open>G\<close> for the \<open>S\<close>.
\<close>

definition demo_calculateMasterKey :: "jsval \<Rightarrow> jsval \<Rightarrow> jsval \<Rightarrow> jsval \<Rightarrow> exn + bytes" where
  "demo_calculateMasterKey salt email password kdfParams =
     (case salt of
        JStr s \<Rightarrow>
          (case password of
             JStr p \<Rightarrow> Inr (s @ ''/'' @ p)
           | _ \<Rightarrow> Inl (TypeError ''password''))
      | _ \<Rightarrow> Inl (TypeError ''salt''))"

definition demo_decryptData :: "string \<Rightarrow> bytes \<Rightarrow> exn + string" where
  "demo_decryptData ct key =
     (if take (Suc (length key)) ct = key @ ''#'' then Inr (drop (Suc (length key)) ct)
      else Inl (Error ''decryption failed''))"

definition demo_jsonStringify :: "jsval \<Rightarrow> string" where
  "demo_jsonStringify v =
     (case v of
        JObj [(k1, JStr a), (k2, JStr s)] \<Rightarrow> replicate (length a) (CHR ''1'') @ ''0'' @ a @ s
      | _ \<Rightarrow> ''null'')"

definition demo_jsonParse :: "string \<Rightarrow> exn + jsval" where
  "demo_jsonParse str =
     (let n = length (takeWhile (\<lambda>c. c = CHR ''1'') str);
          rest = drop (Suc n) str
      in Inr (keychain (take n rest) (drop n rest)))"

definition demo_fromSecret :: "string \<Rightarrow> exn + keypair" where
  "demo_fromSecret s =
     (if take 1 s = ''S'' then Inr (Keypair s (''G'' @ drop 1 s))
      else Inl (Error ''invalid seed''))"

definition demo :: provider where
  "demo =
     \<lparr>calculateMasterKey = demo_calculateMasterKey,
      deriveWalletId = (\<lambda>mk. ''i'' @ mk),
      deriveWalletKey = (\<lambda>mk. ''k'' @ mk),
      encryptData = (\<lambda>iv plain key. key @ ''#'' @ plain),
      decryptData = demo_decryptData,
      hexFromBits = (\<lambda>b. b),
      toBase64 = (\<lambda>b. b),
      jsonStringify = demo_jsonStringify,
      jsonParse = demo_jsonParse,
      isValidSecretKey = (\<lambda>s. take 1 s = ''S''),
      isValidPublicKey = (\<lambda>a. take 1 a = ''G''),
      fromSecret = demo_fromSecret,
      hash = (\<lambda>s. s),
      signDecorated = (\<lambda>kp d. kp_secret kp @ '':'' @ d),
      toXDR_base64 = (\<lambda>b. b),
      stringOf = (\<lambda>v. ''[object Object]'')\<rparr>"

definition alice :: keypair where
  "alice = Keypair ''Salice'' ''Galice''"

definition bob :: keypair where
  "bob = Keypair ''Sbob'' ''Gbob''"

definition alice_wallet :: wallet where
  "alice_wallet =
     \<lparr>w_email = JStr ''user@example.com'', w_keypair = alice,
      w_accountId = JStr ''Galice'', w_id = JUndefined, w_clockDiff = 0\<rparr>"

section \<open>The small provider meets the requirements\<close>

lemma demo_cipher: "cipher_roundtrip demo"
  by (simp add: cipher_roundtrip_def demo_def demo_decryptData_def)

lemma takeWhile_ones: "takeWhile (\<lambda>c. c = CHR ''1'') (replicate n (CHR ''1'') @ CHR ''0'' # xs) = replicate n (CHR ''1'')"
  by (induction n) simp_all

lemma demo_json_roundtrip: "demo_jsonParse (demo_jsonStringify (keychain a s)) = Inr (keychain a s)"
  by (simp add: demo_jsonStringify_def demo_jsonParse_def keychain_def takeWhile_ones)

lemma demo_json: "json_roundtrip demo"
  by (simp add: json_roundtrip_def demo_def demo_json_roundtrip)

lemma alice_genuine: "keypair_genuine demo alice"
  by (simp add: keypair_genuine_def demo_def demo_fromSecret_def alice_def)

lemma alice_wallet_inv: "wallet_inv demo alice_wallet"
  by (simp add: wallet_inv_def alice_wallet_def alice_genuine Keypair_isValidPublicKey_def) (simp add: demo_def)

section \<open>Decimal text\<close>







lemma nat_toString_nonempty: "nat_toString n \<noteq> []"
  by (simp add: nat_toString.simps [of n])







section \<open>What a call that returns has done\<close>

lemma constructor_Inr:
  "Wallet_constructor P email keypair accountId walletId = Inr w \<Longrightarrow>
     \<not> isNil email \<and> Keypair_isValidPublicKey P accountId \<and> (truthy walletId \<longrightarrow> isString walletId)
     \<and> w_email w = email \<and> w_accountId w = accountId \<and> w_id w = walletId \<and> w_clockDiff w = 0
     \<and> (case keypair of JKeypair kp \<Rightarrow> w_keypair w = kp
          | JStr s \<Rightarrow> isValidSecretKey P s \<and> fromSecret P s = Inr (w_keypair w)
          | _ \<Rightarrow> False)"
  by (auto simp: Wallet_constructor_def split: if_splits sum.splits jsval.splits)

lemma constructor_instance:
  "\<not> isNil email \<Longrightarrow> Keypair_isValidPublicKey P accountId \<Longrightarrow> truthy walletId \<longrightarrow> isString walletId \<Longrightarrow>
   Wallet_constructor P email (JKeypair kp) accountId walletId =
     Inr \<lparr>w_email = email, w_keypair = kp, w_accountId = accountId, w_id = walletId, w_clockDiff = 0\<rparr>"
  by (auto simp: Wallet_constructor_def)

lemma valid_public_key_string:
  "Keypair_isValidPublicKey P v \<Longrightarrow> \<exists>a. v = JStr a \<and> isValidPublicKey P a"
  by (cases v) (simp_all add: Keypair_isValidPublicKey_def)

lemma encrypt_Inr:
  "encrypt P w rnd iv kdfParams password = (w', Inr art) \<Longrightarrow>
     \<not> isNil kdfParams \<and> isString password \<and> password \<noteq> JStr [] \<and>
     (\<exists>mk. calculateMasterKey P (JStr (toBase64 P rnd)) (w_email w) password kdfParams = Inr mk
        \<and> w' = w\<lparr>w_id := JStr (hexFromBits P (deriveWalletId P mk))\<rparr>
        \<and> art = \<lparr>art_id = JStr (hexFromBits P (deriveWalletId P mk)),
                  art_accountId = w_accountId w, art_email = w_email w,
                  art_salt = toBase64 P rnd,
                  art_keychainData =
                    encryptData P iv
                      (jsonStringify P
                        (JObj [(''accountId'', w_accountId w),
                               (''seed'', JStr (kp_secret (w_keypair w)))]))
                      (deriveWalletKey P mk)\<rparr>)"
  by (auto simp: encrypt_def Let_def split: if_splits sum.splits)

lemma encrypt_Inl:
  "encrypt P w rnd iv kdfParams password = (w', Inl e) \<Longrightarrow> w' = w"
  by (auto simp: encrypt_def Let_def split: if_splits sum.splits)

lemma encryptRecoveryData_Inr:
  assumes "encryptRecoveryData P w rnd iv kdfParams r = (w', Inr art)"
  shows "w' = w \<and> \<not> isNil (w_email w) \<and> isValidPublicKey P (kp_accountId r)
     \<and> (\<exists>rw'. encrypt P \<lparr>w_email = w_email w, w_keypair = w_keypair w,
                     w_accountId = JStr (kp_accountId r), w_id = JUndefined, w_clockDiff = 0\<rparr>
                   rnd iv kdfParams (JStr (kp_secret r)) = (rw', Inr art))"
proof -
  from assms obtain rw where
    rw: "Wallet_constructor P (w_email w) (JKeypair (w_keypair w)) (JStr (kp_accountId r)) JUndefined = Inr rw"
    and enc: "snd (encrypt P rw rnd iv kdfParams (JStr (kp_secret r))) = Inr art" and w': "w' = w"
    by (auto simp: encryptRecoveryData_def split: sum.splits)
  from constructor_Inr [OF rw] have email: "\<not> isNil (w_email w)"
    and valid: "Keypair_isValidPublicKey P (JStr (kp_accountId r))"
    by simp_all
  with rw have "rw = \<lparr>w_email = w_email w, w_keypair = w_keypair w,
                     w_accountId = JStr (kp_accountId r), w_id = JUndefined, w_clockDiff = 0\<rparr>"
    by (simp add: constructor_instance)
  moreover from valid have "isValidPublicKey P (kp_accountId r)"
    by (simp add: Keypair_isValidPublicKey_def)
  moreover from enc obtain rw' where "encrypt P rw rnd iv kdfParams (JStr (kp_secret r)) = (rw', Inr art)"
    by (cases "encrypt P rw rnd iv kdfParams (JStr (kp_secret r))") simp
  ultimately show ?thesis
    using w' email by blast
qed

lemma signRequest_state: "fst (signRequest P w nowMs uri) = w"
  by (simp add: signRequest_def Let_def)

lemma synchronizeTime_Inl: "synchronizeTime w nowMs timestamp = (w', Inl e) \<Longrightarrow> w' = w"
  by (auto simp: synchronizeTime_def Let_def split: if_splits)

lemma encryptRecoveryData_state: "fst (encryptRecoveryData P w rnd iv kdfParams r) = w"
  by (simp add: encryptRecoveryData_def split: sum.splits)



lemma generate_no_id: "generate P kp email = Inr w \<Longrightarrow> w_id w = JUndefined"
  by (auto simp: generate_def dest: constructor_Inr)

lemma fromRecoverySeed_accountId:
  "fromRecoverySeed P kdfParams salt email seed = Inr w \<Longrightarrow>
     w_accountId w = JStr (kp_accountId (w_keypair w))"
  by (auto simp: fromRecoverySeed_def split: sum.splits dest: constructor_Inr)

lemma generate_accountId:
  "generate P kp email = Inr w \<Longrightarrow> w_accountId w = JStr (kp_accountId (w_keypair w))"
  by (auto simp: generate_def dest: constructor_Inr)

lemma constructor_invalid_accountId:
  "\<not> Keypair_isValidPublicKey P accountId \<Longrightarrow>
     \<exists>e. Wallet_constructor P email keypair accountId walletId = Inl e"
  by (cases "Wallet_constructor P email keypair accountId walletId")
    (auto dest: constructor_Inr)

lemma constructor_accepted:
  assumes "constructor_accepts P email keypair accountId walletId"
  shows "\<exists>w. Wallet_constructor P email keypair accountId walletId = Inr w"
  using assms
  by (auto simp: constructor_accepts_def Wallet_constructor_def split: jsval.splits sum.splits)

lemma constructor_rejected:
  assumes "\<not> constructor_accepts P email keypair accountId walletId"
  shows "\<exists>e. Wallet_constructor P email keypair accountId walletId = Inl e"
  using assms
  by (auto simp: constructor_accepts_def Wallet_constructor_def split: jsval.splits sum.splits)

text \<open>The constructor establishes what the round trip needs, and \<^verbatim>\<open>encrypt\<close> keeps it.\<close>

lemma constructor_wallet_inv:
  "Wallet_constructor P email (JKeypair kp) accountId walletId = Inr w \<Longrightarrow> keypair_genuine P kp
     \<Longrightarrow> wallet_inv P w"
  by (auto simp: wallet_inv_def dest: constructor_Inr)

lemma constructor_seed_wallet_inv:
  "Wallet_constructor P email (JStr s) accountId walletId = Inr w \<Longrightarrow>
     (\<And>kp. fromSecret P s = Inr kp \<Longrightarrow> keypair_genuine P kp) \<Longrightarrow> wallet_inv P w"
  by (auto simp: wallet_inv_def dest: constructor_Inr)

lemma encrypt_wallet_inv:
  "wallet_inv P w \<Longrightarrow> wallet_inv P (fst (encrypt P w rnd iv kdfParams password))"
  by (auto simp: wallet_inv_def encrypt_def Let_def split: sum.splits)

lemma fromEncrypted_of_keychain:
  assumes cr: "cipher_roundtrip P" and jr: "json_roundtrip P"
    and mk: "calculateMasterKey P salt email password kdfParams = Inr mk"
    and gen: "keypair_genuine P kp"
    and email: "\<not> isNil email"
    and acc: "isValidPublicKey P a"
  shows "fromEncrypted P
           (encryptData P iv (jsonStringify P (JObj [(''accountId'', JStr a), (''seed'', JStr (kp_secret kp))]))
              (deriveWalletKey P mk))
           kdfParams salt email password =
         Inr \<lparr>w_email = email, w_keypair = kp, w_accountId = JStr a,
              w_id = JStr (hexFromBits P (deriveWalletId P mk)), w_clockDiff = 0\<rparr>"
proof -
  have dec: "decryptData P
               (encryptData P iv (jsonStringify P (keychain a (kp_secret kp))) (deriveWalletKey P mk))
               (deriveWalletKey P mk) = Inr (jsonStringify P (keychain a (kp_secret kp)))"
    using cr by (simp add: cipher_roundtrip_def)
  have parse: "jsonParse P (jsonStringify P (keychain a (kp_secret kp))) = Inr (keychain a (kp_secret kp))"
    using jr by (simp add: json_roundtrip_def)
  have seed: "js_get (keychain a (kp_secret kp)) ''seed'' = Inr (JStr (kp_secret kp))"
    by (simp add: keychain_def)
  have accid: "js_get (keychain a (kp_secret kp)) ''accountId'' = Inr (JStr a)"
    by (simp add: keychain_def)
  have kp: "Keypair_fromSecret P (JStr (kp_secret kp)) = Inr kp"
    using gen by (simp add: Keypair_fromSecret_def keypair_genuine_def)
  have valid: "Keypair_isValidPublicKey P (JStr a)"
    using acc by (simp add: Keypair_isValidPublicKey_def)
  have ctor: "Wallet_constructor P email (JKeypair kp) (JStr a) (JStr (hexFromBits P (deriveWalletId P mk))) =
      Inr \<lparr>w_email = email, w_keypair = kp, w_accountId = JStr a,
           w_id = JStr (hexFromBits P (deriveWalletId P mk)), w_clockDiff = 0\<rparr>"
    using email valid by (simp add: constructor_instance)
  show ?thesis
    unfolding fromEncrypted_def keychain_def [symmetric]
    by (simp add: mk dec parse seed kp accid ctor)
qed

section \<open>Runs on the small provider\<close>

lemma alice_encrypt:
  "encrypt demo alice_wallet ''c2FsdA=='' ''iv'' (JObj []) (JStr ''pw12345'') =
     (alice_wallet\<lparr>w_id := JStr ''ic2FsdA==/pw12345''\<rparr>,
      Inr \<lparr>art_id = JStr ''ic2FsdA==/pw12345'', art_accountId = JStr ''Galice'',
           art_email = JStr ''user@example.com'', art_salt = ''c2FsdA=='',
           art_keychainData = ''kc2FsdA==/pw12345#1111110GaliceSalice''\<rparr>)"
  by (simp add: encrypt_def Let_def demo_def demo_calculateMasterKey_def demo_jsonStringify_def
      alice_wallet_def alice_def)

lemma alice_recovery:
  "encryptRecoveryData demo alice_wallet ''cmVj'' ''iv'' (JObj []) bob =
     (alice_wallet,
      Inr \<lparr>art_id = JStr ''icmVj/Sbob'', art_accountId = JStr ''Gbob'',
           art_email = JStr ''user@example.com'', art_salt = ''cmVj'',
           art_keychainData = ''kcmVj/Sbob#11110GbobSalice''\<rparr>)"
  by (simp add: encryptRecoveryData_def Wallet_constructor_def Keypair_isValidPublicKey_def
      encrypt_def Let_def demo_def demo_calculateMasterKey_def demo_jsonStringify_def
      alice_wallet_def alice_def bob_def)

lemma alice_fromRecoverySeed:
  "fromRecoverySeed demo (JObj []) (JStr ''cmVj'') (JStr ''user@example.com'') (JStr ''Salice'') =
     Inr (alice_wallet\<lparr>w_id := JStr ''icmVj/Salice''\<rparr>)"
  by (simp add: fromRecoverySeed_def Keypair_fromSecret_def deriveId_def Wallet_constructor_def
      Keypair_isValidPublicKey_def demo_def demo_fromSecret_def demo_calculateMasterKey_def
      alice_wallet_def alice_def)

lemma alice_generate: "generate demo alice (JStr ''user@example.com'') = Inr alice_wallet"
  by (simp add: generate_def Wallet_constructor_def alice_def alice_wallet_def
      Keypair_isValidPublicKey_def demo_def)

lemma alice_constructor:
  "Wallet_constructor demo (JStr ''user@example.com'') (JStr ''Salice'') (JStr ''Galice'') JUndefined
     = Inr alice_wallet"
  by (simp add: Wallet_constructor_def alice_def alice_wallet_def
      Keypair_isValidPublicKey_def demo_def demo_fromSecret_def)

section \<open>Encrypting and decrypting\<close>

text \<open>
  C1. When \<^verbatim>\<open>encrypt(kdfParams, password)\<close> on a wallet returns the artifact
  \<^verbatim>\<open>{id, accountId, email, salt, keychainData}\<close>, then
  \<^verbatim>\<open>fromEncrypted(keychainData, kdfParams, salt, email, password)\<close> with the wallet's
  email returns a wallet whose account id, email and wallet id are the artifact's, whose
  \<^verbatim>\<open>id\<close> getter gives what the encrypted wallet's gives, and whose secret seed is
  the original wallet's. The cipher and the serialisation are to undo themselves, and the
  wallet is one the constructor made around a genuine keypair.
\<close>

theorem encrypt_fromEncrypted_roundtrip:
  assumes "cipher_roundtrip P" and "json_roundtrip P" and "wallet_inv P w"
    and "encrypt P w rnd iv kdfParams password = (w', Inr art)"
  shows "\<exists>w2. fromEncrypted P (art_keychainData art) kdfParams (JStr (art_salt art)) (w_email w) password
               = Inr w2
           \<and> w_accountId w2 = art_accountId art \<and> w_email w2 = art_email art
           \<and> w_id w2 = art_id art \<and> get_id w2 = get_id w'
           \<and> secretSeed w2 = secretSeed w"
proof -
  from encrypt_Inr [OF assms(4)] obtain mk where
    mk: "calculateMasterKey P (JStr (toBase64 P rnd)) (w_email w) password kdfParams = Inr mk"
    and w': "w' = w\<lparr>w_id := JStr (hexFromBits P (deriveWalletId P mk))\<rparr>"
    and art: "art = \<lparr>art_id = JStr (hexFromBits P (deriveWalletId P mk)),
                  art_accountId = w_accountId w, art_email = w_email w,
                  art_salt = toBase64 P rnd,
                  art_keychainData =
                    encryptData P iv
                      (jsonStringify P
                        (JObj [(''accountId'', w_accountId w),
                               (''seed'', JStr (kp_secret (w_keypair w)))]))
                      (deriveWalletKey P mk)\<rparr>"
    by blast
  from assms(3) have email: "\<not> isNil (w_email w)" and gen: "keypair_genuine P (w_keypair w)"
    and "Keypair_isValidPublicKey P (w_accountId w)"
    by (simp_all add: wallet_inv_def)
  then obtain a where a: "w_accountId w = JStr a" "isValidPublicKey P a"
    using valid_public_key_string by blast
  have "fromEncrypted P (art_keychainData art) kdfParams (JStr (art_salt art)) (w_email w) password =
         Inr \<lparr>w_email = w_email w, w_keypair = w_keypair w, w_accountId = JStr a,
              w_id = JStr (hexFromBits P (deriveWalletId P mk)), w_clockDiff = 0\<rparr>"
    using fromEncrypted_of_keychain [OF assms(1,2) mk gen email a(2), of iv]
    by (simp add: art a(1))
  then show ?thesis
    by (simp add: art a(1) w' get_id_def secretSeed_def)
qed

theorem encrypt_fromEncrypted_roundtrip_witness:
  "cipher_roundtrip demo \<and> json_roundtrip demo \<and> wallet_inv demo alice_wallet
   \<and> encrypt demo alice_wallet ''c2FsdA=='' ''iv'' (JObj []) (JStr ''pw12345'') =
     (alice_wallet\<lparr>w_id := JStr ''ic2FsdA==/pw12345''\<rparr>,
      Inr \<lparr>art_id = JStr ''ic2FsdA==/pw12345'', art_accountId = JStr ''Galice'',
           art_email = JStr ''user@example.com'', art_salt = ''c2FsdA=='',
           art_keychainData = ''kc2FsdA==/pw12345#1111110GaliceSalice''\<rparr>)
   \<and> (\<exists>w2. fromEncrypted demo ''kc2FsdA==/pw12345#1111110GaliceSalice'' (JObj []) (JStr ''c2FsdA=='')
               (JStr ''user@example.com'') (JStr ''pw12345'') = Inr w2
           \<and> w_accountId w2 = JStr ''Galice'' \<and> w_email w2 = JStr ''user@example.com''
           \<and> w_id w2 = JStr ''ic2FsdA==/pw12345'' \<and> get_id w2 = Inr (JStr ''ic2FsdA==/pw12345'')
           \<and> secretSeed w2 = ''Salice'')"
proof -
  have "\<exists>w2. fromEncrypted demo ''kc2FsdA==/pw12345#1111110GaliceSalice'' (JObj []) (JStr ''c2FsdA=='')
               (JStr ''user@example.com'') (JStr ''pw12345'') = Inr w2
           \<and> w_accountId w2 = JStr ''Galice'' \<and> w_email w2 = JStr ''user@example.com''
           \<and> w_id w2 = JStr ''ic2FsdA==/pw12345'' \<and> get_id w2 = Inr (JStr ''ic2FsdA==/pw12345'')
           \<and> secretSeed w2 = ''Salice''"
    using encrypt_fromEncrypted_roundtrip [OF demo_cipher demo_json alice_wallet_inv alice_encrypt]
    by (simp add: alice_wallet_def alice_def secretSeed_def get_id_def)
  with demo_cipher demo_json alice_wallet_inv alice_encrypt show ?thesis
    by blast
qed

text \<open>
  C2. When \<^verbatim>\<open>encryptRecoveryData(kdfParams, recoveryKeypair)\<close> on a wallet returns an
  artifact, then \<^verbatim>\<open>fromEncrypted\<close> on that artifact, with the recovery keypair's own
  secret seed as the password, returns a wallet whose secret seed is the seed of the
  wallet's own keypair; it is not the recovery keypair's seed when the two seeds differ.
\<close>

theorem recovery_roundtrip:
  assumes "cipher_roundtrip P" and "json_roundtrip P" and "keypair_genuine P (w_keypair w)"
    and "encryptRecoveryData P w rnd iv kdfParams r = (w', Inr art)"
  shows "\<exists>w2. fromEncrypted P (art_keychainData art) kdfParams (JStr (art_salt art)) (art_email art)
               (JStr (kp_secret r)) = Inr w2
           \<and> secretSeed w2 = secretSeed w
           \<and> (kp_secret r \<noteq> secretSeed w \<longrightarrow> secretSeed w2 \<noteq> kp_secret r)"
proof -
  let ?rw = "\<lparr>w_email = w_email w, w_keypair = w_keypair w,
              w_accountId = JStr (kp_accountId r), w_id = JUndefined, w_clockDiff = 0\<rparr>"
  from encryptRecoveryData_Inr [OF assms(4)] obtain rw' where
    email: "\<not> isNil (w_email w)" and valid: "isValidPublicKey P (kp_accountId r)"
    and enc: "encrypt P ?rw rnd iv kdfParams (JStr (kp_secret r)) = (rw', Inr art)"
    by blast
  from encrypt_Inr [OF enc] obtain mk where
    mk: "calculateMasterKey P (JStr (toBase64 P rnd)) (w_email w) (JStr (kp_secret r)) kdfParams = Inr mk"
    and art: "art = \<lparr>art_id = JStr (hexFromBits P (deriveWalletId P mk)),
                  art_accountId = JStr (kp_accountId r), art_email = w_email w,
                  art_salt = toBase64 P rnd,
                  art_keychainData =
                    encryptData P iv
                      (jsonStringify P
                        (JObj [(''accountId'', JStr (kp_accountId r)),
                               (''seed'', JStr (kp_secret (w_keypair w)))]))
                      (deriveWalletKey P mk)\<rparr>"
    by auto
  have "fromEncrypted P (art_keychainData art) kdfParams (JStr (art_salt art)) (art_email art)
          (JStr (kp_secret r)) =
         Inr \<lparr>w_email = w_email w, w_keypair = w_keypair w, w_accountId = JStr (kp_accountId r),
              w_id = JStr (hexFromBits P (deriveWalletId P mk)), w_clockDiff = 0\<rparr>"
    using fromEncrypted_of_keychain [OF assms(1,2) mk assms(3) email valid, of iv]
    by (simp add: art)
  then show ?thesis
    by (simp add: secretSeed_def)
qed

theorem recovery_roundtrip_witness:
  "cipher_roundtrip demo \<and> json_roundtrip demo \<and> keypair_genuine demo (w_keypair alice_wallet)
   \<and> encryptRecoveryData demo alice_wallet ''cmVj'' ''iv'' (JObj []) bob =
     (alice_wallet,
      Inr \<lparr>art_id = JStr ''icmVj/Sbob'', art_accountId = JStr ''Gbob'',
           art_email = JStr ''user@example.com'', art_salt = ''cmVj'',
           art_keychainData = ''kcmVj/Sbob#11110GbobSalice''\<rparr>)
   \<and> kp_secret bob \<noteq> secretSeed alice_wallet
   \<and> (\<exists>w2. fromEncrypted demo ''kcmVj/Sbob#11110GbobSalice'' (JObj []) (JStr ''cmVj'')
               (JStr ''user@example.com'') (JStr ''Sbob'') = Inr w2
           \<and> secretSeed w2 = ''Salice'' \<and> secretSeed w2 \<noteq> ''Sbob'')"
proof -
  have gen: "keypair_genuine demo (w_keypair alice_wallet)"
    using alice_genuine by (simp add: alice_wallet_def)
  have "\<exists>w2. fromEncrypted demo ''kcmVj/Sbob#11110GbobSalice'' (JObj []) (JStr ''cmVj'')
               (JStr ''user@example.com'') (JStr ''Sbob'') = Inr w2
           \<and> secretSeed w2 = ''Salice'' \<and> secretSeed w2 \<noteq> ''Sbob''"
    using recovery_roundtrip [OF demo_cipher demo_json gen alice_recovery]
    by (simp add: alice_wallet_def alice_def bob_def secretSeed_def)
  moreover have "kp_secret bob \<noteq> secretSeed alice_wallet"
    by (simp add: alice_wallet_def alice_def bob_def secretSeed_def)
  ultimately show ?thesis
    using demo_cipher demo_json gen alice_recovery by blast
qed

section \<open>The account id of a wallet\<close>

text \<open>
  C3, as the spec states it, fails: the constructor never compares the account id with
  the keypair. It accepts the keypair of one account with the valid account id of
  another, and decrypting recovery data gives such a wallet, with the primary keypair and
  the recovery keypair's account id.
\<close>

theorem accountId_mismatch_counterexample:
  "Wallet_constructor demo (JStr ''user@example.com'') (JKeypair alice) (JStr ''Gbob'') JUndefined =
     Inr \<lparr>w_email = JStr ''user@example.com'', w_keypair = alice, w_accountId = JStr ''Gbob'',
          w_id = JUndefined, w_clockDiff = 0\<rparr>
   \<and> fromEncrypted demo ''kcmVj/Sbob#11110GbobSalice'' (JObj []) (JStr ''cmVj'')
       (JStr ''user@example.com'') (JStr ''Sbob'') =
     Inr \<lparr>w_email = JStr ''user@example.com'', w_keypair = alice, w_accountId = JStr ''Gbob'',
          w_id = JStr ''icmVj/Sbob'', w_clockDiff = 0\<rparr>
   \<and> JStr ''Gbob'' \<noteq> JStr (kp_accountId alice)"
  by (simp add: Wallet_constructor_def Keypair_isValidPublicKey_def fromEncrypted_def
      Keypair_fromSecret_def demo_def demo_calculateMasterKey_def demo_decryptData_def
      demo_jsonParse_def demo_fromSecret_def keychain_def alice_def)

text \<open>
  C3, amended. A wallet the constructor returns carries the account id it was given,
  and that account id is a syntactically valid one; the constructor rejects an account id
  that is not, and it accepts every valid one with whatever \<^verbatim>\<open>Keypair\<close> instance it
  comes with. The wallets that \<^verbatim>\<open>generate\<close> and \<^verbatim>\<open>fromRecoverySeed\<close> return have
  the account id of their keypair.
\<close>

theorem accountId_validated:
  "(Wallet_constructor P email keypair accountId walletId = Inr w \<longrightarrow>
      w_accountId w = accountId \<and> Keypair_isValidPublicKey P (w_accountId w))
   \<and> (\<not> Keypair_isValidPublicKey P accountId' \<longrightarrow>
      (\<exists>e. Wallet_constructor P email keypair accountId' walletId = Inl e))
   \<and> (\<not> isNil email0 \<and> Keypair_isValidPublicKey P accountId0 \<longrightarrow>
      Wallet_constructor P email0 (JKeypair kp0) accountId0 JUndefined =
        Inr \<lparr>w_email = email0, w_keypair = kp0, w_accountId = accountId0,
             w_id = JUndefined, w_clockDiff = 0\<rparr>)
   \<and> (generate P kp email1 = Inr w1 \<longrightarrow> w_accountId w1 = JStr (kp_accountId (w_keypair w1)))
   \<and> (fromRecoverySeed P kdfParams salt email2 seed = Inr w2 \<longrightarrow>
      w_accountId w2 = JStr (kp_accountId (w_keypair w2)))"
  using constructor_Inr [of P email keypair accountId walletId w]
    constructor_invalid_accountId [of P accountId' email keypair walletId]
    constructor_instance [of email0 P accountId0 JUndefined kp0]
    generate_accountId [of P kp email1 w1]
    fromRecoverySeed_accountId [of P kdfParams salt email2 seed w2]
  by simp

theorem accountId_validated_witness:
  "Wallet_constructor demo (JStr ''user@example.com'') (JStr ''Salice'') (JStr ''Galice'') JUndefined
     = Inr alice_wallet
   \<and> w_accountId alice_wallet = JStr ''Galice''
   \<and> Keypair_isValidPublicKey demo (w_accountId alice_wallet)
   \<and> \<not> Keypair_isValidPublicKey demo (JStr ''alice'')
   \<and> (\<exists>e. Wallet_constructor demo (JStr ''user@example.com'') (JStr ''Salice'') (JStr ''alice'')
          JUndefined = Inl e)
   \<and> \<not> isNil (JStr ''user@example.com'') \<and> Keypair_isValidPublicKey demo (JStr ''Gbob'')
   \<and> Wallet_constructor demo (JStr ''user@example.com'') (JKeypair alice) (JStr ''Gbob'') JUndefined =
       Inr \<lparr>w_email = JStr ''user@example.com'', w_keypair = alice, w_accountId = JStr ''Gbob'',
            w_id = JUndefined, w_clockDiff = 0\<rparr>
   \<and> generate demo alice (JStr ''user@example.com'') = Inr alice_wallet
   \<and> w_accountId alice_wallet = JStr (kp_accountId (w_keypair alice_wallet))
   \<and> fromRecoverySeed demo (JObj []) (JStr ''cmVj'') (JStr ''user@example.com'') (JStr ''Salice'') =
       Inr (alice_wallet\<lparr>w_id := JStr ''icmVj/Salice''\<rparr>)"
proof -
  have bad: "\<not> Keypair_isValidPublicKey demo (JStr ''alice'')"
    by (simp add: Keypair_isValidPublicKey_def demo_def)
  have good: "Keypair_isValidPublicKey demo (JStr ''Gbob'')"
    by (simp add: Keypair_isValidPublicKey_def demo_def)
  show ?thesis
    using accountId_validated [where P = demo and email = "JStr ''user@example.com''"
        and keypair = "JStr ''Salice''" and accountId = "JStr ''Galice''" and walletId = JUndefined
        and w = alice_wallet and accountId' = "JStr ''alice''"
        and ?email0.0 = "JStr ''user@example.com''" and ?accountId0.0 = "JStr ''Gbob''"
        and ?kp0.0 = alice and kp = alice and ?email1.0 = "JStr ''user@example.com''"
        and ?w1.0 = alice_wallet and kdfParams = "JObj []" and salt = "JStr ''cmVj''"
        and ?email2.0 = "JStr ''user@example.com''" and seed = "JStr ''Salice''"
        and ?w2.0 = "alice_wallet\<lparr>w_id := JStr ''icmVj/Salice''\<rparr>"]
      alice_constructor alice_generate alice_fromRecoverySeed bad good
    by auto
qed

section \<open>The wallet id\<close>

lemma fromEncrypted_id:
  assumes "fromEncrypted P keychainData kdfParams salt email password = Inr w"
  shows "\<exists>h. deriveId P email password kdfParams salt = Inr h \<and> w_id w = JStr h"
proof -
  from assms obtain mk where mk: "calculateMasterKey P salt email password kdfParams = Inr mk"
    by (cases "calculateMasterKey P salt email password kdfParams")
      (simp_all add: fromEncrypted_def)
  with assms have "w_id w = JStr (hexFromBits P (deriveWalletId P mk))"
    by (auto simp: fromEncrypted_def Let_def split: sum.splits dest: constructor_Inr)
  with mk show ?thesis
    by (simp add: deriveId_def)
qed

lemma fromRecoverySeed_id:
  assumes "fromRecoverySeed P kdfParams salt email seed = Inr w"
  shows "\<exists>h. deriveId P email seed kdfParams salt = Inr h \<and> w_id w = JStr h"
  using assms
  by (auto simp: fromRecoverySeed_def split: sum.splits dest: constructor_Inr)

text \<open>
  C4. \<^verbatim>\<open>deriveId\<close> is a function of salt, email, password and KDF parameters alone:
  two calls with the same four arguments return the same id. It reads no wallet, no
  clock and no random source, and the id that \<^verbatim>\<open>fromEncrypted\<close> and
  \<^verbatim>\<open>fromRecoverySeed\<close> give a wallet is this function of their arguments, whatever the
  keychain holds.
\<close>

theorem deriveId_deterministic:
  "((salt1, email1, password1, kdfParams1) = (salt2, email2, password2, kdfParams2) \<longrightarrow>
      deriveId P email1 password1 kdfParams1 salt1 = deriveId P email2 password2 kdfParams2 salt2)
   \<and> (fromEncrypted P keychainData kdfParams salt email password = Inr w \<longrightarrow>
        (\<exists>h. deriveId P email password kdfParams salt = Inr h \<and> w_id w = JStr h))
   \<and> (fromRecoverySeed P kdfParams' salt' email' seed = Inr w' \<longrightarrow>
        (\<exists>h. deriveId P email' seed kdfParams' salt' = Inr h \<and> w_id w' = JStr h))"
  using fromEncrypted_id [of P keychainData kdfParams salt email password w]
    fromRecoverySeed_id [of P kdfParams' salt' email' seed w']
  by blast

theorem deriveId_deterministic_witness:
  "(JStr ''cmVj'', JStr ''user@example.com'', JStr ''Salice'', JObj []) =
     (JStr ''cmVj'', JStr ''user@example.com'', JStr ''Salice'', JObj [])
   \<and> deriveId demo (JStr ''user@example.com'') (JStr ''Salice'') (JObj []) (JStr ''cmVj'') =
       Inr ''icmVj/Salice''
   \<and> fromRecoverySeed demo (JObj []) (JStr ''cmVj'') (JStr ''user@example.com'') (JStr ''Salice'') =
       Inr (alice_wallet\<lparr>w_id := JStr ''icmVj/Salice''\<rparr>)
   \<and> fromEncrypted demo ''kcmVj/Sbob#11110GbobSalice'' (JObj []) (JStr ''cmVj'')
       (JStr ''user@example.com'') (JStr ''Sbob'') =
     Inr \<lparr>w_email = JStr ''user@example.com'', w_keypair = alice, w_accountId = JStr ''Gbob'',
          w_id = JStr ''icmVj/Sbob'', w_clockDiff = 0\<rparr>
   \<and> deriveId demo (JStr ''user@example.com'') (JStr ''Sbob'') (JObj []) (JStr ''cmVj'') =
       Inr ''icmVj/Sbob''"
proof -
  have dec: "fromEncrypted demo ''kcmVj/Sbob#11110GbobSalice'' (JObj []) (JStr ''cmVj'')
       (JStr ''user@example.com'') (JStr ''Sbob'') =
     Inr \<lparr>w_email = JStr ''user@example.com'', w_keypair = alice, w_accountId = JStr ''Gbob'',
          w_id = JStr ''icmVj/Sbob'', w_clockDiff = 0\<rparr>"
    by (simp add: Wallet_constructor_def Keypair_isValidPublicKey_def fromEncrypted_def
        Keypair_fromSecret_def demo_def demo_calculateMasterKey_def demo_decryptData_def
        demo_jsonParse_def demo_fromSecret_def keychain_def alice_def)
  from deriveId_deterministic [of "JStr ''cmVj''" "JStr ''user@example.com''" "JStr ''Salice''" "JObj []"
      "JStr ''cmVj''" "JStr ''user@example.com''" "JStr ''Salice''" "JObj []" demo
      "''kcmVj/Sbob#11110GbobSalice''" "JObj []" "JStr ''cmVj''" "JStr ''user@example.com''"
      "JStr ''Sbob''"
      "\<lparr>w_email = JStr ''user@example.com'', w_keypair = alice, w_accountId = JStr ''Gbob'',
        w_id = JStr ''icmVj/Sbob'', w_clockDiff = 0\<rparr>"
      "JObj []" "JStr ''cmVj''" "JStr ''user@example.com''" "JStr ''Salice''"
      "alice_wallet\<lparr>w_id := JStr ''icmVj/Salice''\<rparr>"]
    dec alice_fromRecoverySeed
  have "deriveId demo (JStr ''user@example.com'') (JStr ''Sbob'') (JObj []) (JStr ''cmVj'') =
       Inr ''icmVj/Sbob''"
    and "deriveId demo (JStr ''user@example.com'') (JStr ''Salice'') (JObj []) (JStr ''cmVj'') =
       Inr ''icmVj/Salice''"
    by auto
  with dec alice_fromRecoverySeed show ?thesis by simp
qed




text \<open>
  C10. Reading \<^verbatim>\<open>id\<close> on a wallet whose wallet id is absent throws the error
  \<^verbatim>\<open>This wallet has no wallet ID yet.\<close>; a wallet that \<^verbatim>\<open>generate\<close> has just
  returned is such a wallet. Once the wallet id is set the getter returns it; after an
  \<^verbatim>\<open>encrypt\<close> that returned, it returns the id of the artifact.
\<close>

theorem id_getter:
  "(generate P kp email = Inr w \<longrightarrow> get_id w = Inl (Error ''This wallet has no wallet ID yet.''))
   \<and> (\<not> truthy (w_id w0) \<longrightarrow> get_id w0 = Inl (Error ''This wallet has no wallet ID yet.''))
   \<and> (truthy (w_id w1) \<longrightarrow> get_id w1 = Inr (w_id w1))
   \<and> (encrypt P w2 rnd iv kdfParams password = (w3, Inr art) \<and> art_id art \<noteq> JStr []
        \<longrightarrow> get_id w3 = Inr (art_id art))"
proof -
  have "get_id w3 = Inr (art_id art)"
    if "encrypt P w2 rnd iv kdfParams password = (w3, Inr art)" and "art_id art \<noteq> JStr []"
    using encrypt_Inr [OF that(1)] that(2) by (auto simp: get_id_def)
  then show ?thesis
    by (auto simp: get_id_def dest: generate_no_id)
qed

theorem id_getter_witness:
  "generate demo alice (JStr ''user@example.com'') = Inr alice_wallet
   \<and> get_id alice_wallet = Inl (Error ''This wallet has no wallet ID yet.'')
   \<and> \<not> truthy (w_id alice_wallet)
   \<and> truthy (w_id (alice_wallet\<lparr>w_id := JStr ''ic2FsdA==/pw12345''\<rparr>))
   \<and> encrypt demo alice_wallet ''c2FsdA=='' ''iv'' (JObj []) (JStr ''pw12345'') =
     (alice_wallet\<lparr>w_id := JStr ''ic2FsdA==/pw12345''\<rparr>,
      Inr \<lparr>art_id = JStr ''ic2FsdA==/pw12345'', art_accountId = JStr ''Galice'',
           art_email = JStr ''user@example.com'', art_salt = ''c2FsdA=='',
           art_keychainData = ''kc2FsdA==/pw12345#1111110GaliceSalice''\<rparr>)
   \<and> JStr ''ic2FsdA==/pw12345'' \<noteq> JStr []
   \<and> get_id (alice_wallet\<lparr>w_id := JStr ''ic2FsdA==/pw12345''\<rparr>) = Inr (JStr ''ic2FsdA==/pw12345'')"
proof -
  let ?w3 = "alice_wallet\<lparr>w_id := JStr ''ic2FsdA==/pw12345''\<rparr>"
  let ?art = "\<lparr>art_id = JStr ''ic2FsdA==/pw12345'', art_accountId = JStr ''Galice'',
           art_email = JStr ''user@example.com'', art_salt = ''c2FsdA=='',
           art_keychainData = ''kc2FsdA==/pw12345#1111110GaliceSalice''\<rparr>"
  have absent: "\<not> truthy (w_id alice_wallet)"
    by (simp add: alice_wallet_def)
  have present: "truthy (w_id ?w3)"
    by simp
  from id_getter [where P = demo and kp = alice and email = "JStr ''user@example.com''"
      and w = alice_wallet and ?w0.0 = alice_wallet and ?w1.0 = ?w3 and ?w2.0 = alice_wallet
      and rnd = "''c2FsdA==''" and iv = "''iv''" and kdfParams = "JObj []"
      and password = "JStr ''pw12345''" and ?w3.0 = ?w3 and art = ?art]
    alice_generate alice_encrypt absent present
  have "get_id alice_wallet = Inl (Error ''This wallet has no wallet ID yet.'')"
    and "get_id ?w3 = Inr (JStr ''ic2FsdA==/pw12345'')"
    by simp_all
  with alice_generate alice_encrypt absent present show ?thesis
    by simp
qed

section \<open>Signing a request\<close>













section \<open>The signed payload\<close>



section \<open>Constructing a wallet\<close>

text \<open>
  C8, as the spec states it, fails: the constructor accepts an email that is the empty
  string and a wallet id that is a string but not hexadecimal.
\<close>

theorem constructor_counterexample:
  "Wallet_constructor demo (JStr '''') (JKeypair alice) (JStr ''Galice'') (JStr ''not hex!'') =
     Inr \<lparr>w_email = JStr '''', w_keypair = alice, w_accountId = JStr ''Galice'',
          w_id = JStr ''not hex!'', w_clockDiff = 0\<rparr>"
  by (simp add: Wallet_constructor_def Keypair_isValidPublicKey_def demo_def)

text \<open>
  C8, amended. The constructor returns a wallet exactly when the email is neither
  \<^verbatim>\<open>null\<close> nor \<^verbatim>\<open>undefined\<close>, the keypair is a \<^verbatim>\<open>Keypair\<close> instance or a string
  that is a valid secret seed and parses, the account id is a syntactically valid
  account-id string, and the wallet id is falsy or a string. The wallet then holds the
  arguments as given, with the keypair parsed from the seed. In every other case the
  constructor throws and there is no wallet.
\<close>

theorem constructor_validation:
  "(constructor_accepts P email keypair accountId walletId \<longrightarrow>
      (\<exists>w. Wallet_constructor P email keypair accountId walletId = Inr w
         \<and> w_email w = email \<and> w_accountId w = accountId \<and> w_id w = walletId
         \<and> w_clockDiff w = 0
         \<and> (case keypair of JKeypair kp \<Rightarrow> w_keypair w = kp
             | JStr s \<Rightarrow> fromSecret P s = Inr (w_keypair w)
             | _ \<Rightarrow> False)))
   \<and> (\<not> constructor_accepts P email keypair accountId walletId \<longrightarrow>
      (\<exists>e. Wallet_constructor P email keypair accountId walletId = Inl e))"
proof (intro conjI impI)
  assume "constructor_accepts P email keypair accountId walletId"
  then obtain w where w: "Wallet_constructor P email keypair accountId walletId = Inr w"
    using constructor_accepted by blast
  from constructor_Inr [OF w] w
  show "\<exists>w. Wallet_constructor P email keypair accountId walletId = Inr w
         \<and> w_email w = email \<and> w_accountId w = accountId \<and> w_id w = walletId
         \<and> w_clockDiff w = 0
         \<and> (case keypair of JKeypair kp \<Rightarrow> w_keypair w = kp
             | JStr s \<Rightarrow> fromSecret P s = Inr (w_keypair w)
             | _ \<Rightarrow> False)"
    by (auto split: jsval.splits)
next
  assume "\<not> constructor_accepts P email keypair accountId walletId"
  then show "\<exists>e. Wallet_constructor P email keypair accountId walletId = Inl e"
    by (rule constructor_rejected)
qed

theorem constructor_validation_witness:
  "constructor_accepts demo (JStr ''user@example.com'') (JStr ''Salice'') (JStr ''Galice'') JUndefined
   \<and> Wallet_constructor demo (JStr ''user@example.com'') (JStr ''Salice'') (JStr ''Galice'') JUndefined
       = Inr alice_wallet
   \<and> \<not> constructor_accepts demo JNull (JStr ''Salice'') (JStr ''Galice'') JUndefined
   \<and> Wallet_constructor demo JNull (JStr ''Salice'') (JStr ''Galice'') JUndefined =
       Inl (Error ''Email is required.'')
   \<and> \<not> constructor_accepts demo (JStr ''user@example.com'') (JStr ''alice'') (JStr ''Galice'') JUndefined
   \<and> Wallet_constructor demo (JStr ''user@example.com'') (JStr ''alice'') (JStr ''Galice'') JUndefined =
       Inl (Error ''Invalid secret seed.'')
   \<and> \<not> constructor_accepts demo (JStr ''user@example.com'') (JStr ''Salice'') (JStr ''alice'') JUndefined
   \<and> Wallet_constructor demo (JStr ''user@example.com'') (JStr ''Salice'') (JStr ''alice'') JUndefined =
       Inl (Error ''Invalid account ID.'')
   \<and> \<not> constructor_accepts demo (JStr ''user@example.com'') (JStr ''Salice'') (JStr ''Galice'') (JNum 7)
   \<and> Wallet_constructor demo (JStr ''user@example.com'') (JStr ''Salice'') (JStr ''Galice'') (JNum 7) =
       Inl (Error ''Hex encoded wallet ID expected.'')"
proof -
  have acc: "constructor_accepts demo (JStr ''user@example.com'') (JStr ''Salice'') (JStr ''Galice'')
      JUndefined"
    by (simp add: constructor_accepts_def Keypair_isValidPublicKey_def demo_def demo_fromSecret_def)
  have rej: "\<not> constructor_accepts demo JNull (JStr ''Salice'') (JStr ''Galice'') JUndefined"
    by (simp add: constructor_accepts_def)
  have rej2: "\<not> constructor_accepts demo (JStr ''user@example.com'') (JStr ''alice'') (JStr ''Galice'')
      JUndefined"
    by (simp add: constructor_accepts_def demo_def)
  have rej3: "\<not> constructor_accepts demo (JStr ''user@example.com'') (JStr ''Salice'') (JStr ''alice'')
      JUndefined"
    by (simp add: constructor_accepts_def Keypair_isValidPublicKey_def demo_def)
  have rej4: "\<not> constructor_accepts demo (JStr ''user@example.com'') (JStr ''Salice'') (JStr ''Galice'')
      (JNum 7)"
    by (simp add: constructor_accepts_def)
  have vals:
    "Wallet_constructor demo JNull (JStr ''Salice'') (JStr ''Galice'') JUndefined =
       Inl (Error ''Email is required.'')"
    "Wallet_constructor demo (JStr ''user@example.com'') (JStr ''alice'') (JStr ''Galice'') JUndefined =
       Inl (Error ''Invalid secret seed.'')"
    "Wallet_constructor demo (JStr ''user@example.com'') (JStr ''Salice'') (JStr ''alice'') JUndefined =
       Inl (Error ''Invalid account ID.'')"
    "Wallet_constructor demo (JStr ''user@example.com'') (JStr ''Salice'') (JStr ''Galice'') (JNum 7) =
       Inl (Error ''Hex encoded wallet ID expected.'')"
    by (simp_all add: Wallet_constructor_def Keypair_isValidPublicKey_def demo_def demo_fromSecret_def)
  from constructor_validation [of demo "JStr ''user@example.com''" "JStr ''Salice''" "JStr ''Galice''"
      JUndefined] acc
  obtain w where w: "Wallet_constructor demo (JStr ''user@example.com'') (JStr ''Salice'')
      (JStr ''Galice'') JUndefined = Inr w"
    and f: "w_email w = JStr ''user@example.com''" "w_accountId w = JStr ''Galice''"
      "w_id w = JUndefined" "w_clockDiff w = 0" "fromSecret demo ''Salice'' = Inr (w_keypair w)"
    by auto
  from f(5) have "w_keypair w = alice"
    by (simp add: demo_def demo_fromSecret_def alice_def)
  with f have "w = alice_wallet"
    by (simp add: alice_wallet_def)
  with w acc rej rej2 rej3 rej4 vals show ?thesis by simp
qed

section \<open>Calls that throw\<close>

text \<open>
  C9. \<^verbatim>\<open>encrypt\<close> with \<^verbatim>\<open>null\<close> or \<^verbatim>\<open>undefined\<close> KDF parameters or with a
  password that is not a string or is empty, \<^verbatim>\<open>signRequest\<close> with an empty URI, and
  \<^verbatim>\<open>synchronizeTime\<close> with a timestamp that is absent or not a number, all throw and
  leave the wallet as it was: email, keypair, account id, wallet id and clock offset.
  More generally, whenever \<^verbatim>\<open>encrypt\<close>, \<^verbatim>\<open>signRequest\<close>, \<^verbatim>\<open>synchronizeTime\<close>
  or \<^verbatim>\<open>encryptRecoveryData\<close> throws, the wallet is unchanged.
\<close>

theorem failure_atomicity:
  "(isNil kdfParams \<or> \<not> isString password \<or> password = JStr [] \<longrightarrow>
      (\<exists>e. encrypt P w rnd iv kdfParams password = (w, Inl e)))
   \<and> (\<not> truthy uri \<longrightarrow> (\<exists>e. signRequest P w nowMs uri = (w, Inl e)))
   \<and> (isNil timestamp \<or> \<not> isNumber timestamp \<longrightarrow>
      (\<exists>e. synchronizeTime w nowMs timestamp = (w, Inl e)))
   \<and> (snd (encrypt P w rnd iv k p) = Inl e1 \<longrightarrow> fst (encrypt P w rnd iv k p) = w)
   \<and> (snd (signRequest P w nowMs u) = Inl e2 \<longrightarrow> fst (signRequest P w nowMs u) = w)
   \<and> (snd (synchronizeTime w nowMs t) = Inl e3 \<longrightarrow> fst (synchronizeTime w nowMs t) = w)
   \<and> (snd (encryptRecoveryData P w rnd iv k r) = Inl e4 \<longrightarrow>
        fst (encryptRecoveryData P w rnd iv k r) = w)"
proof -
  have 1: "isNil kdfParams \<or> \<not> isString password \<or> password = JStr [] \<longrightarrow>
      (\<exists>e. encrypt P w rnd iv kdfParams password = (w, Inl e))"
    by (auto simp: encrypt_def)
  have 2: "\<not> truthy uri \<longrightarrow> (\<exists>e. signRequest P w nowMs uri = (w, Inl e))"
    by (simp add: signRequest_def)
  have 3: "isNil timestamp \<or> \<not> isNumber timestamp \<longrightarrow>
      (\<exists>e. synchronizeTime w nowMs timestamp = (w, Inl e))"
    by (auto simp: synchronizeTime_def)
  have 4: "snd (encrypt P w rnd iv k p) = Inl e1 \<longrightarrow> fst (encrypt P w rnd iv k p) = w"
    using encrypt_Inl [of P w rnd iv k p "fst (encrypt P w rnd iv k p)" e1]
    by (metis prod.collapse)
  have 6: "snd (synchronizeTime w nowMs t) = Inl e3 \<longrightarrow> fst (synchronizeTime w nowMs t) = w"
    using synchronizeTime_Inl [of w nowMs t "fst (synchronizeTime w nowMs t)" e3]
    by (metis prod.collapse)
  show ?thesis
    using 1 2 3 4 6 by (simp add: signRequest_state encryptRecoveryData_state)
qed

theorem failure_atomicity_witness:
  "isNil JNull \<and> encrypt demo alice_wallet ''r'' ''iv'' JNull (JStr ''pw'') =
       (alice_wallet, Inl (Error ''KDF params required''))
   \<and> \<not> isString (JNum 5) \<and> encrypt demo alice_wallet ''r'' ''iv'' (JObj []) (JNum 5) =
       (alice_wallet, Inl (TypeError ''Password must be a non-empty string''))
   \<and> encrypt demo alice_wallet ''r'' ''iv'' (JObj []) (JStr []) =
       (alice_wallet, Inl (TypeError ''Password must be a non-empty string''))
   \<and> \<not> truthy (JStr []) \<and> signRequest demo alice_wallet 0 (JStr []) =
       (alice_wallet, Inl (Error ''URI required.''))
   \<and> \<not> isNumber (JStr ''12'') \<and> synchronizeTime alice_wallet 0 (JStr ''12'') =
       (alice_wallet, Inl (TypeError ''Invalid timestamp. A UNIX timestamp in seconds expected.''))
   \<and> isNil JUndefined \<and> synchronizeTime alice_wallet 0 JUndefined =
       (alice_wallet, Inl (TypeError ''Invalid timestamp. A UNIX timestamp in seconds expected.''))
   \<and> encryptRecoveryData demo alice_wallet ''r'' ''iv'' JNull bob =
       (alice_wallet, Inl (Error ''KDF params required''))"
proof -
  have rec: "encryptRecoveryData demo alice_wallet ''r'' ''iv'' JNull bob =
       (alice_wallet, Inl (Error ''KDF params required''))"
    by (simp add: encryptRecoveryData_def Wallet_constructor_def Keypair_isValidPublicKey_def
        encrypt_def demo_def alice_wallet_def bob_def)
  have enc: "encrypt demo alice_wallet ''r'' ''iv'' (JObj []) (JNum 5) =
       (alice_wallet, Inl (TypeError ''Password must be a non-empty string''))"
    "encrypt demo alice_wallet ''r'' ''iv'' (JObj []) (JStr []) =
       (alice_wallet, Inl (TypeError ''Password must be a non-empty string''))"
    "synchronizeTime alice_wallet 0 JUndefined =
       (alice_wallet, Inl (TypeError ''Invalid timestamp. A UNIX timestamp in seconds expected.''))"
    by (simp_all add: encrypt_def synchronizeTime_def)
  from failure_atomicity [where kdfParams = JNull and password = "JStr ''pw''" and P = demo
      and w = alice_wallet and rnd = "''r''" and iv = "''iv''" and uri = "JStr []" and nowMs = 0
      and timestamp = "JStr ''12''" and k = JNull and p = "JStr ''pw''"
      and ?e1.0 = "Error ''KDF params required''" and u = "JStr []"
      and ?e2.0 = "Error ''URI required.''" and t = "JStr ''12''"
      and ?e3.0 = "TypeError ''Invalid timestamp. A UNIX timestamp in seconds expected.''"
      and r = bob and ?e4.0 = "Error ''KDF params required''"]
  have "encrypt demo alice_wallet ''r'' ''iv'' JNull (JStr ''pw'') =
       (alice_wallet, Inl (Error ''KDF params required''))"
    and "signRequest demo alice_wallet 0 (JStr []) = (alice_wallet, Inl (Error ''URI required.''))"
    and "synchronizeTime alice_wallet 0 (JStr ''12'') =
       (alice_wallet, Inl (TypeError ''Invalid timestamp. A UNIX timestamp in seconds expected.''))"
    by (simp_all add: encrypt_def signRequest_def synchronizeTime_def)
  with rec enc show ?thesis
    by simp
qed

end
